theory Spec2Isabelle
  imports Main "HOL-Library.Word"
begin

section \<open>Go values used by the deployment adapter\<close>

type_synonym int32 = "32 word"

text \<open>
  A Go \<open>map[string]string\<close> is a reference that may be nil. In the adapter's methods one
  deployment object is read and written through a single pointer, so a map field is
  modelled by its value: \<open>None\<close> is the nil map, \<open>Some m\<close> an allocated map with
  contents \<open>m\<close>.
\<close>

type_synonym gomap = "(string \<rightharpoonup> string) option"

datatype panic = AssignmentToEntryInNilMap | NilPointerDereference

datatype error = Error string

text \<open>\<open>m[k]\<close> as an expression: the zero value on a nil map and on a missing key.\<close>

definition map_index :: "gomap \<Rightarrow> string \<Rightarrow> string" where
  "map_index m k = (case m of None \<Rightarrow> '''' | Some f \<Rightarrow> (case f k of None \<Rightarrow> '''' | Some v \<Rightarrow> v))"

text \<open>\<open>delete(m, k)\<close>: a no-op on a nil map and on a missing key.\<close>

definition map_delete :: "gomap \<Rightarrow> string \<Rightarrow> gomap" where
  "map_delete m k = (case m of None \<Rightarrow> None | Some f \<Rightarrow> Some (f(k := None)))"

text \<open>\<open>m[k] = v\<close>: panics on a nil map.\<close>

definition map_assign :: "gomap \<Rightarrow> string \<Rightarrow> string \<Rightarrow> panic + gomap" where
  "map_assign m k v = (case m of None \<Rightarrow> Inl AssignmentToEntryInNilMap | Some f \<Rightarrow> Inr (Some (f(k \<mapsto> v))))"

text \<open>Whether a map holds a key (a nil map holds none).\<close>

definition has_key :: "gomap \<Rightarrow> string \<Rightarrow> bool" where
  "has_key m k = (case m of None \<Rightarrow> False | Some f \<Rightarrow> f k \<noteq> None)"

section \<open>The Kubernetes objects\<close>

text \<open>
  The fields of \<open>appsv1.Deployment\<close> that the adapter reads or writes, and the rest of
  its spec. The type parameter \<open>'m\<close> is the representation of a map field: \<open>gomap\<close>
  for the adapter's methods, a heap reference where aliasing matters (the divert clone).
  The embedded \<open>ObjectMeta\<close> is flattened, as Go's field promotion does
  (\<open>d.Labels\<close> is \<open>d.ObjectMeta.Labels\<close>); the pod template's own metadata carries the
  prefix \<open>Template\<close>.
\<close>

datatype IntOrString = IntVal int32 | StrVal string

record RollingUpdateDeployment =
  MaxUnavailable :: "IntOrString option"
  MaxSurge :: "IntOrString option"

record DeploymentStrategy =
  Type :: string
  RollingUpdate :: "RollingUpdateDeployment option"

definition RecreateDeploymentStrategyType :: string where
  "RecreateDeploymentStrategyType = ''Recreate''"

record LabelSelectorRequirement =
  Key :: string
  Operator :: string
  Values :: "string list"

record 'm LabelSelector =
  MatchLabels :: 'm
  MatchExpressions :: "LabelSelectorRequirement list"

record Container =
  ContainerName :: string
  Image :: string

record PodSpec =
  Containers :: "Container list"

record 'm PodTemplateSpec =
  TemplateLabels :: 'm
  TemplateAnnotations :: 'm
  TemplateSpec :: PodSpec

record 'm DeploymentSpec =
  Replicas :: "int32 option"
  Selector :: "'m LabelSelector option"
  Template :: "'m PodTemplateSpec"
  Strategy :: DeploymentStrategy
  MinReadySeconds :: int32
  RevisionHistoryLimit :: "int32 option"
  Paused :: bool
  ProgressDeadlineSeconds :: "int32 option"

record DeploymentStatus =
  ObservedGeneration :: "64 word"
  StatusReplicas :: int32
  UpdatedReplicas :: int32
  ReadyReplicas :: int32
  AvailableReplicas :: int32
  UnavailableReplicas :: int32
  CollisionCount :: "int32 option"

record 'm Deployment =
  Kind :: string
  Name :: string
  Namespace :: string
  UID :: string
  ResourceVersion :: string
  Labels :: 'm
  Annotations :: 'm
  Spec :: "'m DeploymentSpec"
  Status :: DeploymentStatus

text \<open>\<open>appsv1.DeploymentStatus{}\<close>, the zero value.\<close>

definition empty_status :: DeploymentStatus where
  "empty_status = \<lparr>ObservedGeneration = 0, StatusReplicas = 0, UpdatedReplicas = 0,
     ReadyReplicas = 0, AvailableReplicas = 0, UnavailableReplicas = 0,
     CollisionCount = None\<rparr>"

section \<open>Names declared outside the adapter's file\<close>

text \<open>
  The adapter uses string constants of package \<open>model\<close> and one of its own package
  (\<open>oktetoVersionAnnotation\<close>) that are declared in other files. Their values are a
  parameter of the model: every function that uses one takes the record \<open>M\<close>.
\<close>

record model =
  TranslationVersion :: string
  oktetoVersionAnnotation :: string
  OktetoRevisionAnnotation :: string
  DeploymentRevisionAnnotation :: string
  TranslationAnnotation :: string
  OktetoRestartAnnotation :: string
  DevLabel :: string
  InteractiveDevLabel :: string
  DetachedDevLabel :: string
  OktetoDivertLabel :: string
  DeployedByLabel :: string
  OktetoAutoCreateAnnotation :: string
  OktetoUpCmd :: string
  DeploymentAnnotation :: string

text \<open>\<open>model.Dev\<close>: the fields \<open>NewTranslation\<close> reads.\<close>

record Dev =
  DevName :: string
  DevNamespace :: string
  DevAnnotations :: gomap
  DevTolerations :: "string list"

text \<open>
  \<open>Translation\<close>. Its field \<open>App\<close> is a pointer back to the adapter that built it; it
  holds no data of its own and no function below reads it, so it has no field here.
\<close>

record Translation =
  Interactive :: bool
  TranslationName :: string
  Version :: string
  TranslationAnnotations :: gomap
  Tolerations :: "string list"
  TranslationReplicas :: int32
  TranslationStrategy :: DeploymentStrategy

section \<open>The deployment adapter\<close>

text \<open>
  \<open>DeploymentApp\<close> is a struct with the single field \<open>d *appsv1.Deployment\<close>. The
  state of an adapter is the deployment its pointer leads to: a method that writes
  through \<open>i.d\<close> returns the updated deployment, and one that replaces \<open>i.d\<close> returns
  the new one.
\<close>

type_synonym DeploymentApp = "gomap Deployment"

text \<open>\<open>Replicas()\<close> dereferences \<open>i.d.Spec.Replicas\<close>.\<close>

definition AppReplicas :: "DeploymentApp \<Rightarrow> panic + int32" where
  "AppReplicas i = (case Replicas (Spec i) of None \<Rightarrow> Inl NilPointerDereference | Some r \<Rightarrow> Inr r)"

definition GetLabel :: "DeploymentApp \<Rightarrow> string \<Rightarrow> string" where
  "GetLabel i key = (if Labels i = None then '''' else map_index (Labels i) key)"

definition GetPodLabel :: "DeploymentApp \<Rightarrow> string \<Rightarrow> string" where
  "GetPodLabel i key =
     (if TemplateLabels (Template (Spec i)) = None then ''''
      else map_index (TemplateLabels (Template (Spec i))) key)"

definition GetAnnotation :: "DeploymentApp \<Rightarrow> string \<Rightarrow> string" where
  "GetAnnotation i key = (if Annotations i = None then '''' else map_index (Annotations i) key)"

definition GetPodAnnotation :: "DeploymentApp \<Rightarrow> string \<Rightarrow> string" where
  "GetPodAnnotation i key =
     (if TemplateAnnotations (Template (Spec i)) = None then ''''
      else map_index (TemplateAnnotations (Template (Spec i))) key)"

definition SetLabel :: "DeploymentApp \<Rightarrow> string \<Rightarrow> string \<Rightarrow> panic + DeploymentApp" where
  "SetLabel i key value =
     (let i1 = (if Labels i = None then i\<lparr>Labels := Some Map.empty\<rparr> else i)
      in case map_assign (Labels i1) key value of
           Inl p \<Rightarrow> Inl p
         | Inr m \<Rightarrow> Inr (i1\<lparr>Labels := m\<rparr>))"

definition SetPodLabel :: "DeploymentApp \<Rightarrow> string \<Rightarrow> string \<Rightarrow> panic + DeploymentApp" where
  "SetPodLabel i key value =
     (let i1 = (if TemplateLabels (Template (Spec i)) = None
                then i\<lparr>Spec := (Spec i)\<lparr>Template := (Template (Spec i))\<lparr>TemplateLabels := Some Map.empty\<rparr>\<rparr>\<rparr>
                else i)
      in case map_assign (TemplateLabels (Template (Spec i1))) key value of
           Inl p \<Rightarrow> Inl p
         | Inr m \<Rightarrow> Inr (i1\<lparr>Spec := (Spec i1)\<lparr>Template := (Template (Spec i1))\<lparr>TemplateLabels := m\<rparr>\<rparr>\<rparr>))"

definition SetAnnotation :: "DeploymentApp \<Rightarrow> string \<Rightarrow> string \<Rightarrow> panic + DeploymentApp" where
  "SetAnnotation i key value =
     (let i1 = (if Annotations i = None then i\<lparr>Annotations := Some Map.empty\<rparr> else i)
      in case map_assign (Annotations i1) key value of
           Inl p \<Rightarrow> Inl p
         | Inr m \<Rightarrow> Inr (i1\<lparr>Annotations := m\<rparr>))"

definition SetPodAnnotation :: "DeploymentApp \<Rightarrow> string \<Rightarrow> string \<Rightarrow> panic + DeploymentApp" where
  "SetPodAnnotation i key value =
     (let i1 = (if TemplateAnnotations (Template (Spec i)) = None
                then i\<lparr>Spec := (Spec i)\<lparr>Template := (Template (Spec i))\<lparr>TemplateAnnotations := Some Map.empty\<rparr>\<rparr>\<rparr>
                else i)
      in case map_assign (TemplateAnnotations (Template (Spec i1))) key value of
           Inl p \<Rightarrow> Inl p
         | Inr m \<Rightarrow> Inr (i1\<lparr>Spec := (Spec i1)\<lparr>Template := (Template (Spec i1))\<lparr>TemplateAnnotations := m\<rparr>\<rparr>\<rparr>))"

definition NewTranslation :: "model \<Rightarrow> DeploymentApp \<Rightarrow> Dev \<Rightarrow> panic + Translation" where
  "NewTranslation M i dev =
     (case AppReplicas i of
        Inl p \<Rightarrow> Inl p
      | Inr r \<Rightarrow> Inr \<lparr>Interactive = True,
                      TranslationName = DevName dev,
                      Version = TranslationVersion M,
                      TranslationAnnotations = DevAnnotations dev,
                      Tolerations = DevTolerations dev,
                      TranslationReplicas = r,
                      TranslationStrategy = Strategy (Spec i)\<rparr>)"

definition DevModeOn :: "DeploymentApp \<Rightarrow> DeploymentApp" where
  "DevModeOn i =
     (let i1 = i\<lparr>Spec := (Spec i)\<lparr>Replicas := Some 1\<rparr>\<rparr>
      in i1\<lparr>Spec := (Spec i1)\<lparr>Strategy := \<lparr>Type = RecreateDeploymentStrategyType, RollingUpdate = None\<rparr>\<rparr>\<rparr>)"

text \<open>
  \<open>DevModeOff\<close> calls \<open>deleteUserAnnotations(i.d.Annotations, t)\<close>, a function of the
  same package declared in another file. It is the parameter \<open>deleteUserAnnotations\<close>:
  what it leaves of the annotations map it is handed. A built-in \<open>delete\<close> never
  fails, so the method has no failure branch.
\<close>

definition DevModeOff ::
  "(gomap \<Rightarrow> Translation \<Rightarrow> gomap) \<Rightarrow> model \<Rightarrow> DeploymentApp \<Rightarrow> Translation \<Rightarrow> DeploymentApp" where
  "DevModeOff deleteUserAnnotations M i t =
     (let i1 = i\<lparr>Spec := (Spec i)\<lparr>Replicas := Some (TranslationReplicas t)\<rparr>\<rparr>;
          i2 = i1\<lparr>Spec := (Spec i1)\<lparr>Strategy := TranslationStrategy t\<rparr>\<rparr>;
          i3 = i2\<lparr>Annotations := map_delete (Annotations i2) (oktetoVersionAnnotation M)\<rparr>;
          i4 = i3\<lparr>Annotations := map_delete (Annotations i3) (OktetoRevisionAnnotation M)\<rparr>;
          i5 = i4\<lparr>Annotations := deleteUserAnnotations (Annotations i4) t\<rparr>;
          i6 = i5\<lparr>Spec := (Spec i5)\<lparr>Template := (Template (Spec i5))
                 \<lparr>TemplateAnnotations := map_delete (TemplateAnnotations (Template (Spec i5))) (TranslationAnnotation M)\<rparr>\<rparr>\<rparr>;
          i7 = i6\<lparr>Spec := (Spec i6)\<lparr>Template := (Template (Spec i6))
                 \<lparr>TemplateAnnotations := map_delete (TemplateAnnotations (Template (Spec i6))) (OktetoRestartAnnotation M)\<rparr>\<rparr>\<rparr>;
          i8 = i7\<lparr>Labels := map_delete (Labels i7) (DevLabel M)\<rparr>;
          i9 = i8\<lparr>Spec := (Spec i8)\<lparr>Template := (Template (Spec i8))
                 \<lparr>TemplateLabels := map_delete (TemplateLabels (Template (Spec i8))) (InteractiveDevLabel M)\<rparr>\<rparr>\<rparr>
      in i9\<lparr>Spec := (Spec i9)\<lparr>Template := (Template (Spec i9))
                 \<lparr>TemplateLabels := map_delete (TemplateLabels (Template (Spec i9))) (DetachedDevLabel M)\<rparr>\<rparr>\<rparr>)"

text \<open>
  \<open>SetOktetoRevision\<close> assigns into \<open>i.d.Annotations\<close> with no nil check.
\<close>

definition SetOktetoRevision :: "model \<Rightarrow> DeploymentApp \<Rightarrow> panic + DeploymentApp" where
  "SetOktetoRevision M i =
     (case map_assign (Annotations i) (OktetoRevisionAnnotation M)
             (map_index (Annotations i) (DeploymentRevisionAnnotation M)) of
        Inl p \<Rightarrow> Inl p
      | Inr m \<Rightarrow> Inr (i\<lparr>Annotations := m\<rparr>))"

text \<open>
  \<open>SetOriginal\<close>. \<open>json.Marshal\<close> is the parameter \<open>marshal\<close>: the bytes, or the
  error it reports. The result pairs the deployment as the call leaves it with how the
  call ended: a panic, or the returned \<open>error\<close> (\<open>None\<close> is Go's nil).
\<close>

definition SetOriginal ::
  "(DeploymentApp \<Rightarrow> error + string) \<Rightarrow> model \<Rightarrow> DeploymentApp
     \<Rightarrow> DeploymentApp \<times> (panic + error option)" where
  "SetOriginal marshal M i =
     (let i1 = i\<lparr>Annotations := map_delete (Annotations i) (DeploymentAnnotation M)\<rparr>;
          i2 = i1\<lparr>Status := empty_status\<rparr>
      in case marshal i2 of
           Inl err \<Rightarrow> (i2, Inr (Some err))
         | Inr manifestBytes \<Rightarrow>
             (case map_assign (Annotations i2) (DeploymentAnnotation M) manifestBytes of
                Inl p \<Rightarrow> (i2, Inl p)
              | Inr m \<Rightarrow> (i2\<lparr>Annotations := m\<rparr>, Inr None)))"

text \<open>
  \<open>RestoreOriginal\<close>. \<open>json.Unmarshal\<close> into a fresh deployment is the parameter
  \<open>unmarshal\<close>: the decoded deployment, or the decoder's error. \<open>fmt.Errorf\<close> puts the
  decoder's message after the prefix. The call to \<open>log.Info\<close> writes to the log only
  and is left out.
\<close>

definition RestoreOriginal ::
  "(string \<Rightarrow> error + DeploymentApp) \<Rightarrow> model \<Rightarrow> DeploymentApp
     \<Rightarrow> DeploymentApp \<times> error option" where
  "RestoreOriginal unmarshal M i =
     (let manifest = map_index (Annotations i) (DeploymentAnnotation M)
      in if manifest = '''' then (i, None)
         else (case unmarshal manifest of
                 Inl (Error msg) \<Rightarrow> (i, Some (Error (''malformed manifest: '' @ msg)))
               | Inr dOrig \<Rightarrow> (dOrig, None)))"

text \<open>
  \<open>Refresh\<close>, \<open>Create\<close> and \<open>Update\<close> call the store (\<open>deployments.Get\<close>,
  \<open>deployments.Create\<close>, \<open>deployments.Update\<close>, declared in another package). Each
  store call is a parameter, with the context and the client fixed.

  \<open>deployments.Get\<close> is handed two strings, the name and the namespace: the parameter
  \<open>get\<close> is its answer, an error or the deployment it returns.

  \<open>deployments.Create\<close> and \<open>deployments.Update\<close> are handed the pointer \<open>i.d\<close>
  itself, so they can write through it before they return, also when they return an
  error. The parameters \<open>create\<close> and \<open>update\<close> give both: the deployment that the
  pointer they were handed leads to when the call returns, and the answer, an error or
  the deployment returned.

  The result of each method is the adapter's deployment after the call and the returned
  \<open>error\<close>. When \<open>i.d\<close> is not assigned, the adapter's deployment is the one its old
  pointer leads to, as the store call left it.
\<close>

definition Refresh ::
  "(string \<Rightarrow> string \<Rightarrow> error + DeploymentApp) \<Rightarrow> DeploymentApp \<Rightarrow> DeploymentApp \<times> error option" where
  "Refresh get i =
     (case get (Name i) (Namespace i) of
        Inl err \<Rightarrow> (i, Some err)
      | Inr d' \<Rightarrow> (d', None))"

definition Create ::
  "(DeploymentApp \<Rightarrow> DeploymentApp \<times> (error + DeploymentApp)) \<Rightarrow> DeploymentApp
     \<Rightarrow> DeploymentApp \<times> error option" where
  "Create create i =
     (case create i of
        (i', Inl err) \<Rightarrow> (i', Some err)
      | (i', Inr d') \<Rightarrow> (d', None))"

definition Update ::
  "(DeploymentApp \<Rightarrow> DeploymentApp \<times> (error + DeploymentApp)) \<Rightarrow> DeploymentApp
     \<Rightarrow> DeploymentApp \<times> error option" where
  "Update update i =
     (case update i of
        (i', Inl err) \<Rightarrow> (i', Some err)
      | (i', Inr d') \<Rightarrow> (d', None))"

section \<open>The divert clone, on a heap\<close>

text \<open>
  \<open>translateDivertDeployment\<close> reads one deployment and writes another, so what its
  writes can reach matters. Deployment structs and maps live in a heap; a deployment's
  map fields hold references (\<open>None\<close> is nil). A pointer and a reference are indices
  into the heap, and allocation appends a cell.
\<close>

type_synonym addr = nat

type_synonym mapref = "addr option"

record heap =
  objs :: "mapref Deployment list"
  cells :: "(string \<rightharpoonup> string) list"

text \<open>A map literal or \<open>make\<close>: a new cell.\<close>

definition new_map :: "(string \<rightharpoonup> string) \<Rightarrow> heap \<Rightarrow> mapref \<times> heap" where
  "new_map m h = (Some (length (cells h)), h\<lparr>cells := cells h @ [m]\<rparr>)"

text \<open>The copy of a map that the generated \<open>DeepCopy\<close> makes: nil stays nil.\<close>

definition copy_map :: "mapref \<Rightarrow> heap \<Rightarrow> mapref \<times> heap" where
  "copy_map r h = (case r of None \<Rightarrow> (None, h) | Some a \<Rightarrow> new_map (cells h ! a) h)"

text \<open>A write to fields of the struct at \<open>p\<close>.\<close>

definition set_obj :: "addr \<Rightarrow> (mapref Deployment \<Rightarrow> mapref Deployment) \<Rightarrow> heap \<Rightarrow> heap" where
  "set_obj p f h = h\<lparr>objs := (objs h)[p := f (objs h ! p)]\<rparr>"

text \<open>The value of a map reference in a heap, and \<open>m[k]\<close> and \<open>m[k] = v\<close> through it.\<close>

definition deref :: "heap \<Rightarrow> mapref \<Rightarrow> gomap" where
  "deref h r = (case r of None \<Rightarrow> None | Some a \<Rightarrow> Some (cells h ! a))"

definition heap_index :: "heap \<Rightarrow> mapref \<Rightarrow> string \<Rightarrow> string" where
  "heap_index h r k = map_index (deref h r) k"

definition heap_assign :: "mapref \<Rightarrow> string \<Rightarrow> string \<Rightarrow> heap \<Rightarrow> panic + heap" where
  "heap_assign r k v h =
     (case r of
        None \<Rightarrow> Inl AssignmentToEntryInNilMap
      | Some a \<Rightarrow> Inr (h\<lparr>cells := (cells h)[a := (cells h ! a)(k \<mapsto> v)]\<rparr>))"

text \<open>
  \<open>d.DeepCopy()\<close>, the generated deep copy of Kubernetes: a new struct whose maps are
  copies (object labels and annotations, the selector's labels, the pod template's
  labels and annotations, in this order); the other fields are values.
\<close>

definition DeepCopy :: "addr \<Rightarrow> heap \<Rightarrow> addr \<times> heap" where
  "DeepCopy d h =
     (let src = objs h ! d;
          (labels, h1) = copy_map (Labels src) h;
          (annotations, h2) = copy_map (Annotations src) h1;
          (selector, h3) =
             (case Selector (Spec src) of
                None \<Rightarrow> (None, h2)
              | Some s \<Rightarrow> (let (matchLabels, h') = copy_map (MatchLabels s) h2
                          in (Some (s\<lparr>MatchLabels := matchLabels\<rparr>), h')));
          (podLabels, h4) = copy_map (TemplateLabels (Template (Spec src))) h3;
          (podAnnotations, h5) = copy_map (TemplateAnnotations (Template (Spec src))) h4;
          out = src\<lparr>Labels := labels, Annotations := annotations,
                  Spec := (Spec src)\<lparr>Selector := selector,
                     Template := (Template (Spec src))
                        \<lparr>TemplateLabels := podLabels, TemplateAnnotations := podAnnotations\<rparr>\<rparr>\<rparr>
      in (length (objs h5), h5\<lparr>objs := objs h5 @ [out]\<rparr>))"

text \<open>
  Modelled from the spec: \<open>annotations.Set\<close> (package \<open>pkg/k8s/annotations\<close>) is not
  among the sources. The spec has the clone stamped with the auto-create marker
  annotation, and has a write to an absent map initialise it first: the key is set in
  the object's annotations, in a new map when the object has none.
\<close>

definition annotations_Set :: "addr \<Rightarrow> string \<Rightarrow> string \<Rightarrow> heap \<Rightarrow> heap" where
  "annotations_Set p key value h =
     (case Annotations (objs h ! p) of
        None \<Rightarrow> (let (m, h1) = new_map [key \<mapsto> value] h
                 in set_obj p (\<lambda>obj. obj\<lparr>Annotations := m\<rparr>) h1)
      | Some a \<Rightarrow> h\<lparr>cells := (cells h)[a := (cells h ! a)(key \<mapsto> value)]\<rparr>)"

text \<open>
  \<open>translateDivertDeployment\<close>. \<open>DivertName\<close> is a function of the same package
  declared in another file: a parameter. The result is the pointer to the clone and the
  heap after the call.
\<close>

definition translateDivertDeployment ::
  "model \<Rightarrow> (string \<Rightarrow> string \<Rightarrow> string) \<Rightarrow> string \<Rightarrow> addr \<Rightarrow> heap \<Rightarrow> panic + (addr \<times> heap)" where
  "translateDivertDeployment M DivertName username d h =
     (let (result, h1) = DeepCopy d h;
          h2 = set_obj result (\<lambda>obj. obj\<lparr>UID := ''''\<rparr>) h1;
          h3 = set_obj result (\<lambda>obj. obj\<lparr>Name := DivertName username (Name (objs h2 ! d))\<rparr>) h2;
          (labels, h4) = new_map [OktetoDivertLabel M \<mapsto> username] h3;
          h5 = set_obj result (\<lambda>obj. obj\<lparr>Labels := labels\<rparr>) h4
      in case (if Labels (objs h5 ! d) \<noteq> None
                  \<and> heap_index h5 (Labels (objs h5 ! d)) (DeployedByLabel M) \<noteq> ''''
               then heap_assign (Labels (objs h5 ! result)) (DeployedByLabel M)
                      (heap_index h5 (Labels (objs h5 ! d)) (DeployedByLabel M)) h5
               else Inr h5) of
           Inl p \<Rightarrow> Inl p
         | Inr h6 \<Rightarrow>
             (let (matchLabels, h7) = new_map [OktetoDivertLabel M \<mapsto> username] h6;
                  h8 = set_obj result
                         (\<lambda>obj. obj\<lparr>Spec := (Spec obj)\<lparr>Selector :=
                                  Some \<lparr>MatchLabels = matchLabels, MatchExpressions = []\<rparr>\<rparr>\<rparr>) h7;
                  (podLabels, h9) = new_map [OktetoDivertLabel M \<mapsto> username] h8;
                  h10 = set_obj result
                          (\<lambda>obj. obj\<lparr>Spec := (Spec obj)\<lparr>Template :=
                                   (Template (Spec obj))\<lparr>TemplateLabels := podLabels\<rparr>\<rparr>\<rparr>) h9;
                  h11 = annotations_Set result (OktetoAutoCreateAnnotation M) (OktetoUpCmd M) h10;
                  h12 = set_obj result (\<lambda>obj. obj\<lparr>ResourceVersion := ''''\<rparr>) h11
              in Inr (result, h12)))"

text \<open>
  The deployment a pointer leads to, with every map reference replaced by the map's
  contents: what a reader of the object sees.
\<close>

definition load :: "heap \<Rightarrow> addr \<Rightarrow> gomap Deployment" where
  "load h p =
     (let obj = objs h ! p in
      \<lparr>Kind = Kind obj, Name = Name obj, Namespace = Namespace obj, UID = UID obj,
       ResourceVersion = ResourceVersion obj,
       Labels = deref h (Labels obj),
       Annotations = deref h (Annotations obj),
       Spec = \<lparr>Replicas = Replicas (Spec obj),
         Selector = (case Selector (Spec obj) of
                       None \<Rightarrow> None
                     | Some s \<Rightarrow> Some \<lparr>MatchLabels = deref h (MatchLabels s),
                                        MatchExpressions = MatchExpressions s\<rparr>),
         Template = \<lparr>TemplateLabels = deref h (TemplateLabels (Template (Spec obj))),
           TemplateAnnotations = deref h (TemplateAnnotations (Template (Spec obj))),
           TemplateSpec = TemplateSpec (Template (Spec obj))\<rparr>,
         Strategy = Strategy (Spec obj),
         MinReadySeconds = MinReadySeconds (Spec obj),
         RevisionHistoryLimit = RevisionHistoryLimit (Spec obj),
         Paused = Paused (Spec obj),
         ProgressDeadlineSeconds = ProgressDeadlineSeconds (Spec obj)\<rparr>,
       Status = Status obj\<rparr>)"

text \<open>
  A pointer into a well-formed heap: it leads to a struct, and the struct's map
  references lead to cells.
\<close>

definition ref_ok :: "heap \<Rightarrow> mapref \<Rightarrow> bool" where
  "ref_ok h r = (case r of None \<Rightarrow> True | Some a \<Rightarrow> a < length (cells h))"

definition valid :: "heap \<Rightarrow> addr \<Rightarrow> bool" where
  "valid h p =
     (p < length (objs h)
      \<and> ref_ok h (Labels (objs h ! p))
      \<and> ref_ok h (Annotations (objs h ! p))
      \<and> (case Selector (Spec (objs h ! p)) of None \<Rightarrow> True | Some s \<Rightarrow> ref_ok h (MatchLabels s))
      \<and> ref_ok h (TemplateLabels (Template (Spec (objs h ! p))))
      \<and> ref_ok h (TemplateAnnotations (Template (Spec (objs h ! p)))))"

text \<open>The label set of a selector: its pairs of key and value (none for a nil selector).\<close>

definition label_set :: "gomap \<Rightarrow> (string \<times> string) set" where
  "label_set m = (case m of None \<Rightarrow> {} | Some f \<Rightarrow> {(k, v). f k = Some v})"

definition selector_labels :: "gomap Deployment \<Rightarrow> (string \<times> string) set" where
  "selector_labels dep = (case Selector (Spec dep) of None \<Rightarrow> {} | Some s \<Rightarrow> label_set (MatchLabels s))"

section \<open>Example inputs\<close>

text \<open>An assignment of the string constants, with distinct keys.\<close>

definition okteto :: model where
  "okteto = \<lparr>TranslationVersion = ''1.0'',
     oktetoVersionAnnotation = ''dev.okteto.com/version'',
     OktetoRevisionAnnotation = ''dev.okteto.com/revision'',
     DeploymentRevisionAnnotation = ''deployment.kubernetes.io/revision'',
     TranslationAnnotation = ''dev.okteto.com/translation'',
     OktetoRestartAnnotation = ''dev.okteto.com/restart'',
     DevLabel = ''dev.okteto.com'',
     InteractiveDevLabel = ''interactive.dev.okteto.com'',
     DetachedDevLabel = ''detached.dev.okteto.com'',
     OktetoDivertLabel = ''divert.okteto.com'',
     DeployedByLabel = ''dev.okteto.com/deployed-by'',
     OktetoAutoCreateAnnotation = ''dev.okteto.com/auto-create'',
     OktetoUpCmd = ''up'',
     DeploymentAnnotation = ''dev.okteto.com/deployment''\<rparr>"

text \<open>The workload of the spec's scenario: \<open>web\<close>, three replicas, rolling update.\<close>

definition rolling :: DeploymentStrategy where
  "rolling = \<lparr>Type = ''RollingUpdate'',
     RollingUpdate = Some \<lparr>MaxUnavailable = Some (StrVal ''25%''), MaxSurge = Some (IntVal 1)\<rparr>\<rparr>"

definition web_pod :: PodSpec where
  "web_pod = \<lparr>Containers = [\<lparr>ContainerName = ''web'', Image = ''nginx''\<rparr>]\<rparr>"

definition web :: DeploymentApp where
  "web = \<lparr>Kind = ''Deployment'', Name = ''web'', Namespace = ''staging'', UID = ''u-1'',
     ResourceVersion = ''42'',
     Labels = Some [''app'' \<mapsto> ''web''],
     Annotations = Some [''deployment.kubernetes.io/revision'' \<mapsto> ''7''],
     Spec = \<lparr>Replicas = Some 3,
       Selector = Some \<lparr>MatchLabels = Some [''app'' \<mapsto> ''web''], MatchExpressions = []\<rparr>,
       Template = \<lparr>TemplateLabels = Some [''app'' \<mapsto> ''web''], TemplateAnnotations = None,
         TemplateSpec = web_pod\<rparr>,
       Strategy = rolling, MinReadySeconds = 0, RevisionHistoryLimit = None, Paused = False,
       ProgressDeadlineSeconds = None\<rparr>,
     Status = empty_status\<lparr>StatusReplicas := 3, ReadyReplicas := 3\<rparr>\<rparr>"

text \<open>The zero deployment, \<open>&appsv1.Deployment{}\<close>: every map and pointer is nil.\<close>

definition bare :: DeploymentApp where
  "bare = \<lparr>Kind = '''', Name = '''', Namespace = '''', UID = '''', ResourceVersion = '''',
     Labels = None, Annotations = None,
     Spec = \<lparr>Replicas = None, Selector = None,
       Template = \<lparr>TemplateLabels = None, TemplateAnnotations = None,
         TemplateSpec = \<lparr>Containers = []\<rparr>\<rparr>,
       Strategy = \<lparr>Type = '''', RollingUpdate = None\<rparr>, MinReadySeconds = 0,
       RevisionHistoryLimit = None, Paused = False, ProgressDeadlineSeconds = None\<rparr>,
     Status = empty_status\<rparr>"

definition web_dev :: Dev where
  "web_dev = \<lparr>DevName = ''web'', DevNamespace = ''staging'',
     DevAnnotations = Some [''team'' \<mapsto> ''blue''], DevTolerations = []\<rparr>"

text \<open>
  An instance of the parameter \<open>deleteUserAnnotations\<close>: it deletes from the map every
  key of the translation's annotations.
\<close>

definition delete_translation_keys :: "gomap \<Rightarrow> Translation \<Rightarrow> gomap" where
  "delete_translation_keys annotations t =
     (case annotations of
        None \<Rightarrow> None
      | Some f \<Rightarrow>
          (case TranslationAnnotations t of
             None \<Rightarrow> Some f
           | Some u \<Rightarrow> Some (\<lambda>k. if u k = None then f k else None)))"

definition web_translation :: Translation where
  "web_translation = \<lparr>Interactive = True, TranslationName = ''web'', Version = ''1.0'',
     TranslationAnnotations = Some [''team'' \<mapsto> ''blue''], Tolerations = [],
     TranslationReplicas = 3, TranslationStrategy = rolling\<rparr>"

text \<open>Instances of the serialisation parameters: encoders and a decoder.\<close>

definition marshal_fails :: "DeploymentApp \<Rightarrow> error + string" where
  "marshal_fails i = Inl (Error ''json: unsupported value'')"

definition marshal_name :: "DeploymentApp \<Rightarrow> error + string" where
  "marshal_name i = Inr (''{name:'' @ Name i @ ''}'')"

definition unmarshal_fails :: "string \<Rightarrow> error + DeploymentApp" where
  "unmarshal_fails s = Inl (Error ''unexpected end of JSON input'')"

text \<open>\<open>web\<close> carrying a manifest backup that is not JSON.\<close>

definition web_stale :: DeploymentApp where
  "web_stale = web\<lparr>Annotations := Some [''dev.okteto.com/deployment'' \<mapsto> ''{'']\<rparr>"

text \<open>
  Instances of the store calls. A \<open>Get\<close> that fails; a write that fails and leaves
  the deployment it was handed alone; a write that resets the resource version and the
  status of the deployment it was handed, as a helper preparing its request does, and
  whose request then fails; and a write that succeeds and returns the stored object.
\<close>

definition get_fails :: "string \<Rightarrow> string \<Rightarrow> error + DeploymentApp" where
  "get_fails name namespace = Inl (Error ''not found'')"

definition write_fails :: "DeploymentApp \<Rightarrow> DeploymentApp \<times> (error + DeploymentApp)" where
  "write_fails i = (i, Inl (Error ''conflict''))"

definition write_resets_then_fails :: "DeploymentApp \<Rightarrow> DeploymentApp \<times> (error + DeploymentApp)" where
  "write_resets_then_fails i =
     (i\<lparr>ResourceVersion := '''', Status := empty_status\<rparr>, Inl (Error ''conflict''))"

definition write_succeeds :: "DeploymentApp \<Rightarrow> DeploymentApp \<times> (error + DeploymentApp)" where
  "write_succeeds i = (i, Inr (i\<lparr>ResourceVersion := ''43''\<rparr>))"

text \<open>An instance of the parameter \<open>DivertName\<close>.\<close>

definition divert_name :: "string \<Rightarrow> string \<Rightarrow> string" where
  "divert_name username name = username @ ''-'' @ name"

text \<open>
  The clone as a reader sees it after the call: the deployment the returned pointer leads
  to (\<open>None\<close> when the call panics).
\<close>

definition divert_clone ::
  "model \<Rightarrow> (string \<Rightarrow> string \<Rightarrow> string) \<Rightarrow> string \<Rightarrow> addr \<Rightarrow> heap \<Rightarrow> gomap Deployment option" where
  "divert_clone M DivertName username d h =
     (case translateDivertDeployment M DivertName username d h of
        Inl p \<Rightarrow> None
      | Inr (result, h') \<Rightarrow> Some (load h' result))"

text \<open>A heap that holds \<open>web\<close> at pointer 0, each of its maps in a cell of its own.\<close>

definition web_heap :: heap where
  "web_heap =
     \<lparr>objs = [\<lparr>Kind = ''Deployment'', Name = ''web'', Namespace = ''staging'', UID = ''u-1'',
         ResourceVersion = ''42'',
         Labels = Some 0,
         Annotations = Some 1,
         Spec = \<lparr>Replicas = Some 3,
           Selector = Some \<lparr>MatchLabels = Some 2, MatchExpressions = []\<rparr>,
           Template = \<lparr>TemplateLabels = Some 3, TemplateAnnotations = None,
             TemplateSpec = web_pod\<rparr>,
           Strategy = rolling, MinReadySeconds = 0, RevisionHistoryLimit = None, Paused = False,
           ProgressDeadlineSeconds = None\<rparr>,
         Status = empty_status\<lparr>StatusReplicas := 3, ReadyReplicas := 3\<rparr>\<rparr>],
      cells = [[''app'' \<mapsto> ''web''],
               [''deployment.kubernetes.io/revision'' \<mapsto> ''7''],
               [''app'' \<mapsto> ''web''],
               [''app'' \<mapsto> ''web'']]\<rparr>"

text \<open>
  A heap that holds, at pointer 0, a deployment whose labels and selector are already the
  divert label of user \<open>alice\<close> (as a divert clone made for her has them).
\<close>

definition alice_heap :: heap where
  "alice_heap =
     \<lparr>objs = [\<lparr>Kind = ''Deployment'', Name = ''alice-web'', Namespace = ''staging'', UID = ''u-2'',
         ResourceVersion = ''43'',
         Labels = Some 0,
         Annotations = None,
         Spec = \<lparr>Replicas = Some 1,
           Selector = Some \<lparr>MatchLabels = Some 1, MatchExpressions = []\<rparr>,
           Template = \<lparr>TemplateLabels = Some 2, TemplateAnnotations = None,
             TemplateSpec = web_pod\<rparr>,
           Strategy = rolling, MinReadySeconds = 0, RevisionHistoryLimit = None, Paused = False,
           ProgressDeadlineSeconds = None\<rparr>,
         Status = empty_status\<rparr>],
      cells = [[''divert.okteto.com'' \<mapsto> ''alice''],
               [''divert.okteto.com'' \<mapsto> ''alice''],
               [''divert.okteto.com'' \<mapsto> ''alice'']]\<rparr>"

section \<open>Entering dev mode twice\<close>

text \<open>
  C3. For every workload, applying \<open>DevModeOn\<close> twice yields the workload that applying
  it once yields; after one application and after two, the replica count is 1 and the
  strategy is the Recreate strategy (with no rolling-update parameters).
\<close>

theorem DevModeOn_idempotent:
  "DevModeOn (DevModeOn i) = DevModeOn i
   \<and> Replicas (Spec (DevModeOn i)) = Some 1
   \<and> Strategy (Spec (DevModeOn i)) = \<lparr>Type = RecreateDeploymentStrategyType, RollingUpdate = None\<rparr>
   \<and> Replicas (Spec (DevModeOn (DevModeOn i))) = Some 1
   \<and> Strategy (Spec (DevModeOn (DevModeOn i))) = \<lparr>Type = RecreateDeploymentStrategyType, RollingUpdate = None\<rparr>"
  by (simp add: DevModeOn_def Let_def)

section \<open>Facts about Go maps\<close>

lemma map_delete_absent: "\<not> has_key m k \<Longrightarrow> map_delete m k = m"
  by (auto simp: has_key_def map_delete_def split: option.splits)

lemma map_index_absent: "\<not> has_key m k \<Longrightarrow> map_index m k = ''''"
  by (auto simp: has_key_def map_index_def split: option.splits)

section \<open>Leaving dev mode\<close>

text \<open>
  C1. For every workload with replica count \<open>R\<close> and strategy \<open>S\<close>: \<open>NewTranslation\<close>
  on it returns a translation, and \<open>DevModeOn\<close> followed by \<open>DevModeOff\<close> with that
  translation leaves the replica count \<open>R\<close> and the strategy \<open>S\<close>, whatever
  \<open>deleteUserAnnotations\<close> does to the annotations.
\<close>

theorem DevMode_round_trip:
  assumes "Replicas (Spec i) = Some R"
  shows "\<exists>t. NewTranslation M i dev = Inr t
           \<and> Replicas (Spec (DevModeOff deleteUserAnnotations M (DevModeOn i) t)) = Some R
           \<and> Strategy (Spec (DevModeOff deleteUserAnnotations M (DevModeOn i) t)) = Strategy (Spec i)"
  using assms by (simp add: NewTranslation_def AppReplicas_def DevModeOff_def DevModeOn_def Let_def)

theorem DevMode_round_trip_witness:
  "Replicas (Spec web) = Some 3
   \<and> (\<exists>t. NewTranslation okteto web web_dev = Inr t
           \<and> Replicas (Spec (DevModeOff delete_translation_keys okteto (DevModeOn web) t)) = Some 3
           \<and> Strategy (Spec (DevModeOff delete_translation_keys okteto (DevModeOn web) t)) = rolling)"
proof -
  have r: "Replicas (Spec web) = Some 3" by (simp add: web_def)
  have s: "Strategy (Spec web) = rolling" by (simp add: web_def)
  show ?thesis
    using DevMode_round_trip [OF r, of okteto web_dev delete_translation_keys] r s by simp
qed

text \<open>
  C4. For every workload that holds none of the keys \<open>DevModeOff\<close> deletes (the version
  and revision annotations and the session's user annotations on the object, the
  translation and restart annotations on the pod template, the dev label on the object,
  the interactive and detached labels on the pod template), \<open>DevModeOff\<close> changes the
  replica count and the strategy, which it takes from the translation, and nothing else.
  The method has no error result and no step that can panic.
\<close>

theorem DevModeOff_deletion_safety:
  assumes "\<not> has_key (Annotations i) (oktetoVersionAnnotation M)"
      and "\<not> has_key (Annotations i) (OktetoRevisionAnnotation M)"
      and "deleteUserAnnotations (Annotations i) t = Annotations i"
      and "\<not> has_key (TemplateAnnotations (Template (Spec i))) (TranslationAnnotation M)"
      and "\<not> has_key (TemplateAnnotations (Template (Spec i))) (OktetoRestartAnnotation M)"
      and "\<not> has_key (Labels i) (DevLabel M)"
      and "\<not> has_key (TemplateLabels (Template (Spec i))) (InteractiveDevLabel M)"
      and "\<not> has_key (TemplateLabels (Template (Spec i))) (DetachedDevLabel M)"
    shows "DevModeOff deleteUserAnnotations M i t =
           i\<lparr>Spec := (Spec i)\<lparr>Replicas := Some (TranslationReplicas t), Strategy := TranslationStrategy t\<rparr>\<rparr>"
  using assms by (simp add: DevModeOff_def Let_def map_delete_absent)

theorem DevModeOff_deletion_safety_witness:
  "\<not> has_key (Annotations web) (oktetoVersionAnnotation okteto)
   \<and> \<not> has_key (Annotations web) (OktetoRevisionAnnotation okteto)
   \<and> delete_translation_keys (Annotations web) web_translation = Annotations web
   \<and> \<not> has_key (TemplateAnnotations (Template (Spec web))) (TranslationAnnotation okteto)
   \<and> \<not> has_key (TemplateAnnotations (Template (Spec web))) (OktetoRestartAnnotation okteto)
   \<and> \<not> has_key (Labels web) (DevLabel okteto)
   \<and> \<not> has_key (TemplateLabels (Template (Spec web))) (InteractiveDevLabel okteto)
   \<and> \<not> has_key (TemplateLabels (Template (Spec web))) (DetachedDevLabel okteto)
   \<and> DevModeOff delete_translation_keys okteto web web_translation =
       web\<lparr>Spec := (Spec web)\<lparr>Replicas := Some 3, Strategy := rolling\<rparr>\<rparr>"
proof -
  have a1: "\<not> has_key (Annotations web) (oktetoVersionAnnotation okteto)"
    by (simp add: has_key_def web_def okteto_def)
  have a2: "\<not> has_key (Annotations web) (OktetoRevisionAnnotation okteto)"
    by (simp add: has_key_def web_def okteto_def)
  have a3: "delete_translation_keys (Annotations web) web_translation = Annotations web"
    by (auto simp: delete_translation_keys_def web_def web_translation_def)
  have a4: "\<not> has_key (TemplateAnnotations (Template (Spec web))) (TranslationAnnotation okteto)"
    by (simp add: has_key_def web_def okteto_def)
  have a5: "\<not> has_key (TemplateAnnotations (Template (Spec web))) (OktetoRestartAnnotation okteto)"
    by (simp add: has_key_def web_def okteto_def)
  have a6: "\<not> has_key (Labels web) (DevLabel okteto)"
    by (simp add: has_key_def web_def okteto_def)
  have a7: "\<not> has_key (TemplateLabels (Template (Spec web))) (InteractiveDevLabel okteto)"
    by (simp add: has_key_def web_def okteto_def)
  have a8: "\<not> has_key (TemplateLabels (Template (Spec web))) (DetachedDevLabel okteto)"
    by (simp add: has_key_def web_def okteto_def)
  have t: "TranslationReplicas web_translation = 3" "TranslationStrategy web_translation = rolling"
    by (simp_all add: web_translation_def)
  show ?thesis
    using DevModeOff_deletion_safety
      [where i = web and M = okteto and deleteUserAnnotations = delete_translation_keys
         and t = web_translation, OF a1 a2 a3 a4 a5 a6 a7 a8]
      a1 a2 a3 a4 a5 a6 a7 a8 t
    by simp
qed

section \<open>The manifest backup\<close>

text \<open>
  C5. When the manifest annotation holds a non-empty string that the decoder rejects,
  \<open>RestoreOriginal\<close> returns the error "malformed manifest: ..." and the deployment is
  the one before the call; when the annotation is absent (also on a nil map) or empty,
  it returns no error and the deployment is the one before the call.
\<close>

theorem RestoreOriginal_malformed_or_empty:
  "(map_index (Annotations i) (DeploymentAnnotation M) \<noteq> ''''
      \<and> unmarshal (map_index (Annotations i) (DeploymentAnnotation M)) = Inl (Error msg)
     \<longrightarrow> RestoreOriginal unmarshal M i = (i, Some (Error (''malformed manifest: '' @ msg))))
   \<and> (\<not> has_key (Annotations i) (DeploymentAnnotation M)
        \<or> map_index (Annotations i) (DeploymentAnnotation M) = ''''
     \<longrightarrow> RestoreOriginal unmarshal M i = (i, None))"
  by (auto simp: RestoreOriginal_def Let_def dest: map_index_absent)

theorem RestoreOriginal_malformed_or_empty_witness:
  "map_index (Annotations web_stale) (DeploymentAnnotation okteto) = ''{''
   \<and> unmarshal_fails ''{'' = Inl (Error ''unexpected end of JSON input'')
   \<and> RestoreOriginal unmarshal_fails okteto web_stale =
       (web_stale, Some (Error ''malformed manifest: unexpected end of JSON input''))
   \<and> \<not> has_key (Annotations web) (DeploymentAnnotation okteto)
   \<and> RestoreOriginal unmarshal_fails okteto web = (web, None)
   \<and> \<not> has_key (Annotations bare) (DeploymentAnnotation okteto)
   \<and> RestoreOriginal unmarshal_fails okteto bare = (bare, None)"
proof -
  have m: "map_index (Annotations web_stale) (DeploymentAnnotation okteto) = ''{''"
    by (simp add: map_index_def web_stale_def okteto_def)
  have u: "unmarshal_fails ''{'' = Inl (Error ''unexpected end of JSON input'')"
    by (simp add: unmarshal_fails_def)
  have w: "\<not> has_key (Annotations web) (DeploymentAnnotation okteto)"
    by (simp add: has_key_def web_def okteto_def)
  have b: "\<not> has_key (Annotations bare) (DeploymentAnnotation okteto)"
    by (simp add: has_key_def bare_def)
  show ?thesis
    using RestoreOriginal_malformed_or_empty
        [of web_stale okteto unmarshal_fails "''unexpected end of JSON input''"]
      RestoreOriginal_malformed_or_empty [of web okteto unmarshal_fails]
      RestoreOriginal_malformed_or_empty [of bare okteto unmarshal_fails]
      m u w b
    by simp
qed

text \<open>
  C6, as the claim states it, fails: when serialisation fails, \<open>SetOriginal\<close> returns
  the error, but it has already deleted the stale manifest annotation and cleared the
  status. Here \<open>web_stale\<close> holds a manifest annotation and a non-empty status, and
  loses both.
\<close>

theorem SetOriginal_unchanged_on_failure_counterexample:
  "marshal_fails (fst (SetOriginal marshal_fails okteto web_stale)) = Inl (Error ''json: unsupported value'')
   \<and> snd (SetOriginal marshal_fails okteto web_stale) = Inr (Some (Error ''json: unsupported value''))
   \<and> fst (SetOriginal marshal_fails okteto web_stale) \<noteq> web_stale
   \<and> has_key (Annotations web_stale) (DeploymentAnnotation okteto)
   \<and> \<not> has_key (Annotations (fst (SetOriginal marshal_fails okteto web_stale))) (DeploymentAnnotation okteto)
   \<and> Status web_stale \<noteq> empty_status
   \<and> Status (fst (SetOriginal marshal_fails okteto web_stale)) = empty_status"
proof -
  have k: "has_key (Annotations web_stale) (DeploymentAnnotation okteto)"
    by (simp add: has_key_def web_stale_def okteto_def)
  have r: "SetOriginal marshal_fails okteto web_stale =
           (web_stale\<lparr>Annotations := map_delete (Annotations web_stale) (DeploymentAnnotation okteto),
                      Status := empty_status\<rparr>, Inr (Some (Error ''json: unsupported value'')))"
    by (simp add: SetOriginal_def marshal_fails_def Let_def)
  have n: "\<not> has_key (map_delete (Annotations web_stale) (DeploymentAnnotation okteto)) (DeploymentAnnotation okteto)"
    by (simp add: has_key_def map_delete_def split: option.splits)
  have s: "Status web_stale \<noteq> empty_status"
    by (simp add: web_stale_def web_def empty_status_def)
  have d: "web_stale\<lparr>Annotations := map_delete (Annotations web_stale) (DeploymentAnnotation okteto),
                      Status := empty_status\<rparr> \<noteq> web_stale"
  proof
    assume "web_stale\<lparr>Annotations := map_delete (Annotations web_stale) (DeploymentAnnotation okteto),
                      Status := empty_status\<rparr> = web_stale"
    then have "Status (web_stale\<lparr>Annotations := map_delete (Annotations web_stale) (DeploymentAnnotation okteto),
                      Status := empty_status\<rparr>) = Status web_stale" by simp
    with s show False by simp
  qed
  show ?thesis using k r n s d by (simp add: marshal_fails_def)
qed

text \<open>
  C6, amended. \<open>SetOriginal\<close> first deletes the stale manifest annotation and clears
  the status. When serialising that deployment fails, it returns the error and writes no
  manifest annotation: the deployment is left with the stale annotation deleted and the
  status cleared, its other fields as before. When serialisation succeeds and the
  annotations map is allocated, the bytes are stored under the manifest annotation and
  no error is returned.
\<close>

theorem SetOriginal_outcome:
  "(marshal (i\<lparr>Annotations := map_delete (Annotations i) (DeploymentAnnotation M), Status := empty_status\<rparr>) = Inl err
     \<longrightarrow> SetOriginal marshal M i =
           (i\<lparr>Annotations := map_delete (Annotations i) (DeploymentAnnotation M), Status := empty_status\<rparr>,
            Inr (Some err)))
   \<and> (marshal (i\<lparr>Annotations := map_delete (Annotations i) (DeploymentAnnotation M), Status := empty_status\<rparr>) = Inr bytes
        \<and> Annotations i = Some f
     \<longrightarrow> SetOriginal marshal M i =
           (i\<lparr>Annotations := Some (f(DeploymentAnnotation M \<mapsto> bytes)), Status := empty_status\<rparr>,
            Inr None))"
  by (auto simp: SetOriginal_def Let_def map_delete_def map_assign_def)

theorem SetOriginal_outcome_witness:
  "marshal_fails (web_stale\<lparr>Annotations := map_delete (Annotations web_stale) (DeploymentAnnotation okteto), Status := empty_status\<rparr>)
     = Inl (Error ''json: unsupported value'')
   \<and> SetOriginal marshal_fails okteto web_stale =
       (web_stale\<lparr>Annotations := map_delete (Annotations web_stale) (DeploymentAnnotation okteto), Status := empty_status\<rparr>,
        Inr (Some (Error ''json: unsupported value'')))
   \<and> marshal_name (web_stale\<lparr>Annotations := map_delete (Annotations web_stale) (DeploymentAnnotation okteto), Status := empty_status\<rparr>)
     = Inr ''{name:web}''
   \<and> Annotations web_stale = Some [''dev.okteto.com/deployment'' \<mapsto> ''{'']
   \<and> SetOriginal marshal_name okteto web_stale =
       (web_stale\<lparr>Annotations := Some [''dev.okteto.com/deployment'' \<mapsto> ''{name:web}''], Status := empty_status\<rparr>,
        Inr None)"
proof -
  have f: "marshal_fails (web_stale\<lparr>Annotations := map_delete (Annotations web_stale) (DeploymentAnnotation okteto), Status := empty_status\<rparr>)
     = Inl (Error ''json: unsupported value'')"
    by (simp add: marshal_fails_def)
  have n: "marshal_name (web_stale\<lparr>Annotations := map_delete (Annotations web_stale) (DeploymentAnnotation okteto), Status := empty_status\<rparr>)
     = Inr ''{name:web}''"
    by (simp add: marshal_name_def web_stale_def web_def)
  have a: "Annotations web_stale = Some [''dev.okteto.com/deployment'' \<mapsto> ''{'']"
    by (simp add: web_stale_def)
  have k: "DeploymentAnnotation okteto = ''dev.okteto.com/deployment''"
    by (simp add: okteto_def)
  show ?thesis
    using SetOriginal_outcome [of marshal_fails web_stale okteto "Error ''json: unsupported value''"]
      SetOriginal_outcome [of marshal_name web_stale okteto _ "''{name:web}''"
         "[''dev.okteto.com/deployment'' \<mapsto> ''{'']"]
      f n a k
    by simp
qed

section \<open>Nil maps\<close>

text \<open>
  The four read accessors return the empty string on a nil map, and the four setters
  allocate a nil map before they assign, so they never panic and the key then reads back.
\<close>

lemma getters_on_nil_map:
  "Labels i = None \<Longrightarrow> GetLabel i key = ''''"
  "Annotations i = None \<Longrightarrow> GetAnnotation i key = ''''"
  "TemplateLabels (Template (Spec i)) = None \<Longrightarrow> GetPodLabel i key = ''''"
  "TemplateAnnotations (Template (Spec i)) = None \<Longrightarrow> GetPodAnnotation i key = ''''"
  by (simp_all add: GetLabel_def GetAnnotation_def GetPodLabel_def GetPodAnnotation_def)

lemma setters_never_panic:
  "\<exists>i'. SetLabel i key value = Inr i' \<and> map_index (Labels i') key = value"
  "\<exists>i'. SetAnnotation i key value = Inr i' \<and> map_index (Annotations i') key = value"
  "\<exists>i'. SetPodLabel i key value = Inr i' \<and> map_index (TemplateLabels (Template (Spec i'))) key = value"
  "\<exists>i'. SetPodAnnotation i key value = Inr i' \<and> map_index (TemplateAnnotations (Template (Spec i'))) key = value"
  by (auto simp: SetLabel_def SetAnnotation_def SetPodLabel_def SetPodAnnotation_def
      map_assign_def map_index_def Let_def split: option.splits)

text \<open>
  C9 at the zero deployment, whose annotations map is nil: \<open>SetOktetoRevision\<close>
  panics on the assignment, and so does \<open>SetOriginal\<close> once serialisation has
  succeeded. Neither allocates the map first.
\<close>

theorem nil_map_write_panics:
  "Annotations bare = None
   \<and> SetOktetoRevision okteto bare = Inl AssignmentToEntryInNilMap
   \<and> SetOriginal marshal_name okteto bare =
       (bare, Inl AssignmentToEntryInNilMap)"
  by (simp add: SetOktetoRevision_def SetOriginal_def map_assign_def map_delete_def
      marshal_name_def bare_def Let_def)

section \<open>Store calls\<close>

text \<open>
  C10, as the claim states it, fails for \<open>Create\<close> and \<open>Update\<close>: they hand the
  store call the pointer \<open>i.d\<close>, and a store call that writes through it and then
  returns an error leaves the adapter with its old pointer and a changed deployment.
  Here the store call resets the resource version and the status of \<open>web\<close> before its
  request fails.
\<close>

theorem store_error_unchanged_counterexample:
  "snd (write_resets_then_fails web) = Inl (Error ''conflict'')
   \<and> snd (Create write_resets_then_fails web) = Some (Error ''conflict'')
   \<and> fst (Create write_resets_then_fails web) \<noteq> web
   \<and> snd (Update write_resets_then_fails web) = Some (Error ''conflict'')
   \<and> fst (Update write_resets_then_fails web) \<noteq> web
   \<and> ResourceVersion web = ''42''
   \<and> ResourceVersion (fst (Update write_resets_then_fails web)) = ''''"
proof -
  have rv: "ResourceVersion web = ''42''" by (simp add: web_def)
  have c: "Create write_resets_then_fails web =
           (web\<lparr>ResourceVersion := '''', Status := empty_status\<rparr>, Some (Error ''conflict''))"
    by (simp add: Create_def write_resets_then_fails_def)
  have u: "Update write_resets_then_fails web =
           (web\<lparr>ResourceVersion := '''', Status := empty_status\<rparr>, Some (Error ''conflict''))"
    by (simp add: Update_def write_resets_then_fails_def)
  have d: "web\<lparr>ResourceVersion := '''', Status := empty_status\<rparr> \<noteq> web"
  proof
    assume "web\<lparr>ResourceVersion := '''', Status := empty_status\<rparr> = web"
    then have "ResourceVersion (web\<lparr>ResourceVersion := '''', Status := empty_status\<rparr>) = ResourceVersion web"
      by simp
    with rv show False by simp
  qed
  show ?thesis using rv c u d by (simp add: write_resets_then_fails_def)
qed

text \<open>
  C10, amended. Each of \<open>Refresh\<close>, \<open>Create\<close> and \<open>Update\<close> returns the store
  call's error and assigns \<open>i.d\<close> only when there is none: on success the adapter's
  deployment is the one the store returned. On an error, \<open>Refresh\<close>, which hands the
  store only the name and the namespace, leaves the in-memory deployment unchanged;
  \<open>Create\<close> and \<open>Update\<close> leave it as the store call left it behind the pointer it
  was handed, which is unchanged exactly when the store call did not write through that
  pointer.
\<close>

theorem store_error_keeps_pointer:
  "(get (Name i) (Namespace i) = Inl err \<longrightarrow> Refresh get i = (i, Some err))
   \<and> (get (Name i) (Namespace i) = Inr d' \<longrightarrow> Refresh get i = (d', None))
   \<and> (create i = (i', Inl err)
        \<longrightarrow> Create create i = (i', Some err) \<and> (fst (Create create i) = i \<longleftrightarrow> i' = i))
   \<and> (create i = (i', Inr d') \<longrightarrow> Create create i = (d', None))
   \<and> (update i = (i', Inl err)
        \<longrightarrow> Update update i = (i', Some err) \<and> (fst (Update update i) = i \<longleftrightarrow> i' = i))
   \<and> (update i = (i', Inr d') \<longrightarrow> Update update i = (d', None))"
  by (auto simp: Refresh_def Create_def Update_def)

theorem store_error_keeps_pointer_witness:
  "get_fails (Name web) (Namespace web) = Inl (Error ''not found'')
   \<and> Refresh get_fails web = (web, Some (Error ''not found''))
   \<and> write_fails web = (web, Inl (Error ''conflict''))
   \<and> Create write_fails web = (web, Some (Error ''conflict''))
   \<and> Update write_fails web = (web, Some (Error ''conflict''))
   \<and> write_resets_then_fails web =
        (web\<lparr>ResourceVersion := '''', Status := empty_status\<rparr>, Inl (Error ''conflict''))
   \<and> Create write_resets_then_fails web =
        (web\<lparr>ResourceVersion := '''', Status := empty_status\<rparr>, Some (Error ''conflict''))
   \<and> Update write_resets_then_fails web =
        (web\<lparr>ResourceVersion := '''', Status := empty_status\<rparr>, Some (Error ''conflict''))
   \<and> write_succeeds web = (web, Inr (web\<lparr>ResourceVersion := ''43''\<rparr>))
   \<and> Create write_succeeds web = (web\<lparr>ResourceVersion := ''43''\<rparr>, None)
   \<and> Update write_succeeds web = (web\<lparr>ResourceVersion := ''43''\<rparr>, None)"
proof -
  have g: "get_fails (Name web) (Namespace web) = Inl (Error ''not found'')"
    by (simp add: get_fails_def)
  have w: "write_fails web = (web, Inl (Error ''conflict''))"
    by (simp add: write_fails_def)
  have r: "write_resets_then_fails web =
        (web\<lparr>ResourceVersion := '''', Status := empty_status\<rparr>, Inl (Error ''conflict''))"
    by (simp add: write_resets_then_fails_def)
  have s: "write_succeeds web = (web, Inr (web\<lparr>ResourceVersion := ''43''\<rparr>))"
    by (simp add: write_succeeds_def)
  show ?thesis
    using
      store_error_keeps_pointer [where get = get_fails and i = web and err = "Error ''not found''"
         and create = write_fails and update = write_fails and i' = web]
      store_error_keeps_pointer [where get = get_fails and i = web and err = "Error ''conflict''"
         and create = write_fails and update = write_fails and i' = web]
      store_error_keeps_pointer [where get = get_fails and i = web and err = "Error ''conflict''"
         and create = write_resets_then_fails and update = write_resets_then_fails
         and i' = "web\<lparr>ResourceVersion := '''', Status := empty_status\<rparr>"]
      store_error_keeps_pointer [where get = get_fails and i = web
         and create = write_succeeds and update = write_succeeds
         and i' = web and d' = "web\<lparr>ResourceVersion := ''43''\<rparr>"]
      g w r s
    by simp
qed

section \<open>The divert clone\<close>

text \<open>
  What \<open>translateDivertDeployment\<close> returns for a pointer into a well-formed heap: it
  does not panic, the clone is a new struct, every struct and every cell that the heap
  held before the call is as it was, and the clone reads as the original with its name,
  UID, resource version, labels, selector and pod-template labels replaced and the
  auto-create annotation added.
\<close>

lemma translateDivertDeployment_clone:
  assumes "valid h d"
  shows "\<exists>h'. translateDivertDeployment M DivertName username d h = Inr (length (objs h), h')
     \<and> take (length (objs h)) (objs h') = objs h
     \<and> take (length (cells h)) (cells h') = cells h
     \<and> load h' (length (objs h)) =
         (load h d)\<lparr>UID := '''', Name := DivertName username (Name (load h d)),
           Labels := Some (if Labels (load h d) \<noteq> None \<and> map_index (Labels (load h d)) (DeployedByLabel M) \<noteq> ''''
                        then [OktetoDivertLabel M \<mapsto> username, DeployedByLabel M \<mapsto> map_index (Labels (load h d)) (DeployedByLabel M)]
                        else [OktetoDivertLabel M \<mapsto> username]),
           Annotations := Some ((case Annotations (load h d) of None \<Rightarrow> Map.empty | Some f \<Rightarrow> f)
                                  (OktetoAutoCreateAnnotation M \<mapsto> OktetoUpCmd M)),
           ResourceVersion := '''',
           Spec := (Spec (load h d))\<lparr>
              Selector := Some \<lparr>MatchLabels = Some [OktetoDivertLabel M \<mapsto> username], MatchExpressions = []\<rparr>,
              Template := (Template (Spec (load h d)))\<lparr>TemplateLabels := Some [OktetoDivertLabel M \<mapsto> username]\<rparr>\<rparr>\<rparr>"
proof -
  obtain os cs where h: "h = \<lparr>objs = os, cells = cs\<rparr>" by (cases h) simp
  obtain kd nm ns uid rv lb an sp st where
    x: "os ! d = \<lparr>Kind = kd, Name = nm, Namespace = ns, UID = uid, ResourceVersion = rv,
                   Labels = lb, Annotations = an, Spec = sp, Status = st\<rparr>"
    by (cases "os ! d") simp
  obtain rp sel tpl sg mr rh pa pd where
    sp: "sp = \<lparr>Replicas = rp, Selector = sel, Template = tpl, Strategy = sg, MinReadySeconds = mr,
                RevisionHistoryLimit = rh, Paused = pa, ProgressDeadlineSeconds = pd\<rparr>"
    by (cases sp) simp
  obtain tl ta ts where tpl: "tpl = \<lparr>TemplateLabels = tl, TemplateAnnotations = ta, TemplateSpec = ts\<rparr>"
    by (cases tpl) simp
  show ?thesis
    using assms unfolding h
    apply (cases lb; cases an; cases sel; cases tl; cases ta)
    apply (simp_all add: x sp tpl translateDivertDeployment_def DeepCopy_def valid_def ref_ok_def copy_map_def new_map_def
        set_obj_def heap_index_def heap_assign_def annotations_Set_def deref_def load_def Let_def
        nth_append nth_list_update split: option.splits)
    done
qed

lemma divert_clone_value:
  assumes "valid h d"
  shows "divert_clone M DivertName username d h =
     Some ((load h d)\<lparr>UID := '''', Name := DivertName username (Name (load h d)),
           Labels := Some (if Labels (load h d) \<noteq> None \<and> map_index (Labels (load h d)) (DeployedByLabel M) \<noteq> ''''
                        then [OktetoDivertLabel M \<mapsto> username, DeployedByLabel M \<mapsto> map_index (Labels (load h d)) (DeployedByLabel M)]
                        else [OktetoDivertLabel M \<mapsto> username]),
           Annotations := Some ((case Annotations (load h d) of None \<Rightarrow> Map.empty | Some f \<Rightarrow> f)
                                  (OktetoAutoCreateAnnotation M \<mapsto> OktetoUpCmd M)),
           ResourceVersion := '''',
           Spec := (Spec (load h d))\<lparr>
              Selector := Some \<lparr>MatchLabels = Some [OktetoDivertLabel M \<mapsto> username], MatchExpressions = []\<rparr>,
              Template := (Template (Spec (load h d)))\<lparr>TemplateLabels := Some [OktetoDivertLabel M \<mapsto> username]\<rparr>\<rparr>\<rparr>)"
proof -
  from translateDivertDeployment_clone [OF assms, of M DivertName username]
  obtain h' where "translateDivertDeployment M DivertName username d h = Inr (length (objs h), h')"
    and "load h' (length (objs h)) =
         (load h d)\<lparr>UID := '''', Name := DivertName username (Name (load h d)),
           Labels := Some (if Labels (load h d) \<noteq> None \<and> map_index (Labels (load h d)) (DeployedByLabel M) \<noteq> ''''
                        then [OktetoDivertLabel M \<mapsto> username, DeployedByLabel M \<mapsto> map_index (Labels (load h d)) (DeployedByLabel M)]
                        else [OktetoDivertLabel M \<mapsto> username]),
           Annotations := Some ((case Annotations (load h d) of None \<Rightarrow> Map.empty | Some f \<Rightarrow> f)
                                  (OktetoAutoCreateAnnotation M \<mapsto> OktetoUpCmd M)),
           ResourceVersion := '''',
           Spec := (Spec (load h d))\<lparr>
              Selector := Some \<lparr>MatchLabels = Some [OktetoDivertLabel M \<mapsto> username], MatchExpressions = []\<rparr>,
              Template := (Template (Spec (load h d)))\<lparr>TemplateLabels := Some [OktetoDivertLabel M \<mapsto> username]\<rparr>\<rparr>\<rparr>"
    by blast
  then show ?thesis by (simp add: divert_clone_def)
qed

lemma load_frame:
  assumes "valid h d"
      and "objs h' ! d = objs h ! d"
      and "\<forall>a<length (cells h). cells h' ! a = cells h ! a"
    shows "load h' d = load h d"
  using assms
  by (auto simp: load_def deref_def valid_def ref_ok_def Let_def split: option.splits)

lemma web_heap_valid: "valid web_heap 0"
  by (simp add: valid_def ref_ok_def web_heap_def)

lemma load_web: "load web_heap 0 = web"
  by (simp add: load_def deref_def web_heap_def web_def Let_def)

lemma alice_heap_valid: "valid alice_heap 0"
  by (simp add: valid_def ref_ok_def alice_heap_def)

lemma label_set_single: "label_set (Some [k \<mapsto> v]) = {(k, v)}"
  by (auto simp: label_set_def split: if_splits)

text \<open>
  C7. For every username and every original deployment (a pointer into a well-formed
  heap), \<open>translateDivertDeployment\<close> returns a clone at a pointer other than the
  original's and writes to nothing that existed before the call: every struct and every
  map cell of the heap is as before, so the original reads exactly as it did.
\<close>

theorem translateDivertDeployment_keeps_original:
  assumes "valid h d"
  shows "\<exists>result h'. translateDivertDeployment M DivertName username d h = Inr (result, h')
     \<and> result \<noteq> d
     \<and> (\<forall>p<length (objs h). objs h' ! p = objs h ! p)
     \<and> (\<forall>a<length (cells h). cells h' ! a = cells h ! a)
     \<and> load h' d = load h d"
proof -
  from translateDivertDeployment_clone [OF assms, of M DivertName username]
  obtain h' where r: "translateDivertDeployment M DivertName username d h = Inr (length (objs h), h')"
    and o: "take (length (objs h)) (objs h') = objs h"
    and c: "take (length (cells h)) (cells h') = cells h"
    by blast
  have d: "d < length (objs h)" using assms by (simp add: valid_def)
  have po: "\<forall>p<length (objs h). objs h' ! p = objs h ! p"
  proof (intro allI impI)
    fix p assume "p < length (objs h)"
    then have "take (length (objs h)) (objs h') ! p = objs h' ! p" by simp
    with o show "objs h' ! p = objs h ! p" by simp
  qed
  have pc: "\<forall>a<length (cells h). cells h' ! a = cells h ! a"
  proof (intro allI impI)
    fix a assume "a < length (cells h)"
    then have "take (length (cells h)) (cells h') ! a = cells h' ! a" by simp
    with c show "cells h' ! a = cells h ! a" by simp
  qed
  from po d have od: "objs h' ! d = objs h ! d" by simp
  from assms od pc have "load h' d = load h d" by (rule load_frame)
  with r d po pc show ?thesis by auto
qed

theorem translateDivertDeployment_keeps_original_witness:
  "valid web_heap 0
   \<and> (\<exists>result h'. translateDivertDeployment okteto divert_name ''alice'' 0 web_heap = Inr (result, h')
        \<and> result \<noteq> 0
        \<and> (\<forall>p<length (objs web_heap). objs h' ! p = objs web_heap ! p)
        \<and> (\<forall>a<length (cells web_heap). cells h' ! a = cells web_heap ! a)
        \<and> load h' 0 = web)"
  using translateDivertDeployment_keeps_original [OF web_heap_valid, of okteto divert_name "''alice''"]
    web_heap_valid load_web
  by simp

text \<open>
  C2, as the claim states it, fails: the clone's selector is the single label
  divert-label = username, and an original whose selector already holds that label (a
  deployment diverted for the same user) shares it with the clone.
\<close>

theorem divert_selector_disjoint_counterexample:
  "valid alice_heap 0
   \<and> divert_clone okteto divert_name ''alice'' 0 alice_heap \<noteq> None
   \<and> (''divert.okteto.com'', ''alice'') \<in> selector_labels (load alice_heap 0)
   \<and> (''divert.okteto.com'', ''alice'') \<in> selector_labels (the (divert_clone okteto divert_name ''alice'' 0 alice_heap))
   \<and> selector_labels (the (divert_clone okteto divert_name ''alice'' 0 alice_heap))
        \<inter> selector_labels (load alice_heap 0) \<noteq> {}"
proof -
  have a: "(''divert.okteto.com'', ''alice'') \<in> selector_labels (load alice_heap 0)"
    by (simp add: selector_labels_def label_set_def load_def deref_def alice_heap_def Let_def)
  have b: "(''divert.okteto.com'', ''alice'')
             \<in> selector_labels (the (divert_clone okteto divert_name ''alice'' 0 alice_heap))"
    by (simp add: divert_clone_value [OF alice_heap_valid] selector_labels_def label_set_def okteto_def)
  have c: "divert_clone okteto divert_name ''alice'' 0 alice_heap \<noteq> None"
    by (simp add: divert_clone_value [OF alice_heap_valid])
  from a b have "selector_labels (the (divert_clone okteto divert_name ''alice'' 0 alice_heap))
        \<inter> selector_labels (load alice_heap 0) \<noteq> {}" by blast
  with a b c alice_heap_valid show ?thesis by simp
qed

text \<open>
  C2, amended. For every username \<open>u\<close> and every original, the clone's selector label
  set is the single pair of the divert label and \<open>u\<close>; it is disjoint from the
  original's selector label set \<open>L\<close> exactly when \<open>L\<close> does not hold that pair; and the
  clone's name is \<open>DivertName u\<close> of the original's name, so it depends on nothing else.
\<close>

theorem divert_selector_and_name:
  assumes "valid h d"
  shows "\<exists>result h'. translateDivertDeployment M DivertName username d h = Inr (result, h')
     \<and> selector_labels (load h' result) = {(OktetoDivertLabel M, username)}
     \<and> (selector_labels (load h' result) \<inter> selector_labels (load h d) = {}
          \<longleftrightarrow> (OktetoDivertLabel M, username) \<notin> selector_labels (load h d))
     \<and> Name (load h' result) = DivertName username (Name (load h d))"
proof -
  from translateDivertDeployment_clone [OF assms, of M DivertName username]
  obtain h' where r: "translateDivertDeployment M DivertName username d h = Inr (length (objs h), h')"
    and l: "load h' (length (objs h)) =
         (load h d)\<lparr>UID := '''', Name := DivertName username (Name (load h d)),
           Labels := Some (if Labels (load h d) \<noteq> None \<and> map_index (Labels (load h d)) (DeployedByLabel M) \<noteq> ''''
                        then [OktetoDivertLabel M \<mapsto> username, DeployedByLabel M \<mapsto> map_index (Labels (load h d)) (DeployedByLabel M)]
                        else [OktetoDivertLabel M \<mapsto> username]),
           Annotations := Some ((case Annotations (load h d) of None \<Rightarrow> Map.empty | Some f \<Rightarrow> f)
                                  (OktetoAutoCreateAnnotation M \<mapsto> OktetoUpCmd M)),
           ResourceVersion := '''',
           Spec := (Spec (load h d))\<lparr>
              Selector := Some \<lparr>MatchLabels = Some [OktetoDivertLabel M \<mapsto> username], MatchExpressions = []\<rparr>,
              Template := (Template (Spec (load h d)))\<lparr>TemplateLabels := Some [OktetoDivertLabel M \<mapsto> username]\<rparr>\<rparr>\<rparr>"
    by blast
  have s: "selector_labels (load h' (length (objs h))) = {(OktetoDivertLabel M, username)}"
    by (simp add: l selector_labels_def label_set_single)
  have n: "Name (load h' (length (objs h))) = DivertName username (Name (load h d))"
    by (simp add: l)
  from r s n show ?thesis by auto
qed

theorem divert_selector_and_name_witness:
  "valid web_heap 0
   \<and> (''divert.okteto.com'', ''alice'') \<notin> selector_labels (load web_heap 0)
   \<and> (\<exists>result h'. translateDivertDeployment okteto divert_name ''alice'' 0 web_heap = Inr (result, h')
        \<and> selector_labels (load h' result) = {(''divert.okteto.com'', ''alice'')}
        \<and> selector_labels (load h' result) \<inter> selector_labels (load web_heap 0) = {}
        \<and> Name (load h' result) = ''alice-web'')"
proof -
  have a: "(''divert.okteto.com'', ''alice'') \<notin> selector_labels (load web_heap 0)"
    by (simp add: load_web selector_labels_def label_set_def web_def)
  have k: "OktetoDivertLabel okteto = ''divert.okteto.com''" by (simp add: okteto_def)
  have n: "divert_name ''alice'' (Name (load web_heap 0)) = ''alice-web''"
    by (simp add: load_web divert_name_def web_def)
  show ?thesis
    using divert_selector_and_name [OF web_heap_valid, of okteto divert_name "''alice''"]
      web_heap_valid a k n
    by auto
qed

text \<open>
  C8, as the claim states it, fails: the clone is a deep copy with some fields
  overwritten, so it keeps the original's object annotations, replica count and update
  strategy. Here the clone of \<open>web\<close> still has the revision annotation, three replicas
  and the rolling-update strategy.
\<close>

theorem divert_clone_keeps_more_counterexample:
  "load web_heap 0 = web
   \<and> divert_clone okteto divert_name ''alice'' 0 web_heap \<noteq> None
   \<and> map_index (Annotations web) ''deployment.kubernetes.io/revision'' = ''7''
   \<and> map_index (Annotations (the (divert_clone okteto divert_name ''alice'' 0 web_heap)))
        ''deployment.kubernetes.io/revision'' = ''7''
   \<and> Replicas (Spec web) = Some 3
   \<and> Replicas (Spec (the (divert_clone okteto divert_name ''alice'' 0 web_heap))) = Some 3
   \<and> Strategy (Spec web) = rolling
   \<and> Strategy (Spec (the (divert_clone okteto divert_name ''alice'' 0 web_heap))) = rolling"
  by (simp add: divert_clone_value [OF web_heap_valid] load_web web_def map_index_def okteto_def)

text \<open>
  C8, amended. The clone is the original with these fields replaced: the name is
  \<open>DivertName username\<close> of the original's name; the UID and the resource version are
  empty; the object labels are the divert label, and the deployed-by label when the
  original has it with a non-empty value; the selector and the pod template's labels are
  the divert label alone; the object annotations are the original's with the auto-create
  marker added. Every other field is the original's: kind, namespace, replica count,
  update strategy and the rest of the spec, the pod template's annotations and pod spec,
  and the status.
\<close>

theorem divert_clone_contents:
  assumes "valid h d"
  shows "divert_clone M DivertName username d h =
     Some ((load h d)\<lparr>UID := '''', Name := DivertName username (Name (load h d)),
           Labels := Some (if Labels (load h d) \<noteq> None \<and> map_index (Labels (load h d)) (DeployedByLabel M) \<noteq> ''''
                        then [OktetoDivertLabel M \<mapsto> username, DeployedByLabel M \<mapsto> map_index (Labels (load h d)) (DeployedByLabel M)]
                        else [OktetoDivertLabel M \<mapsto> username]),
           Annotations := Some ((case Annotations (load h d) of None \<Rightarrow> Map.empty | Some f \<Rightarrow> f)
                                  (OktetoAutoCreateAnnotation M \<mapsto> OktetoUpCmd M)),
           ResourceVersion := '''',
           Spec := (Spec (load h d))\<lparr>
              Selector := Some \<lparr>MatchLabels = Some [OktetoDivertLabel M \<mapsto> username], MatchExpressions = []\<rparr>,
              Template := (Template (Spec (load h d)))\<lparr>TemplateLabels := Some [OktetoDivertLabel M \<mapsto> username]\<rparr>\<rparr>\<rparr>)"
  using assms by (rule divert_clone_value)

theorem divert_clone_contents_witness:
  "valid web_heap 0
   \<and> divert_clone okteto divert_name ''alice'' 0 web_heap =
       Some (web\<lparr>UID := '''', Name := ''alice-web'',
           Labels := Some [''divert.okteto.com'' \<mapsto> ''alice''],
           Annotations := Some [''deployment.kubernetes.io/revision'' \<mapsto> ''7'',
                                ''dev.okteto.com/auto-create'' \<mapsto> ''up''],
           ResourceVersion := '''',
           Spec := (Spec web)\<lparr>
              Selector := Some \<lparr>MatchLabels = Some [''divert.okteto.com'' \<mapsto> ''alice''], MatchExpressions = []\<rparr>,
              Template := (Template (Spec web))\<lparr>TemplateLabels := Some [''divert.okteto.com'' \<mapsto> ''alice'']\<rparr>\<rparr>\<rparr>)"
proof -
  have l: "Labels web = Some [''app'' \<mapsto> ''web'']" by (simp add: web_def)
  have a: "Annotations web = Some [''deployment.kubernetes.io/revision'' \<mapsto> ''7'']" by (simp add: web_def)
  have n: "Name web = ''web''" by (simp add: web_def)
  show ?thesis
    using divert_clone_contents [OF web_heap_valid, of okteto divert_name "''alice''"]
      web_heap_valid
    by (simp add: load_web l a n okteto_def divert_name_def map_index_def)
qed

end
